theory Spec2Isabelle
  imports Main "HOL-Library.Word" "HOL-Library.AList"
begin

section \<open>The LLM response cache of one-api (model/llm_cache.go, middleware/llm_cache.go)\<close>

text \<open>
  The cache is a process-wide Go map from request fingerprints to pointers to
  \<open>LLMCacheItem\<close> objects, a pointer to a statistics object, a configuration record
  and a handful of package-level configuration variables. The embedding threads one
  record of all of that through every operation. Objects that the Go code reaches
  through pointers (\<open>*LLMCacheItem\<close>, \<open>*LLMCacheStats\<close>) live in explicit stores
  indexed by addresses, so that sharing between the map and what an operation returns
  is visible. The mutex is not modelled: every operation is one atomic step.
  \<open>time.Now().Unix()\<close> is an argument of each operation that reads the clock.
  Logging has no effect on the state and is left out, and so is the detached goroutine
  that mirrors an inserted entry to Redis. The response and the usage that
  \<open>SetLLMCache\<close> receives as pointers are kept in the item by value.
\<close>

subsection \<open>Data\<close>

type_synonym int64 = "64 word"

text \<open>A \<open>float64\<close> is carried as its 64-bit pattern; the cache never computes with it.\<close>

type_synonym float64 = "64 word"

text \<open>
  Modelled from the spec: \<open>relaymodel.Message\<close> and its method \<open>StringContent()\<close> are
  not part of the given sources. A message is represented by the text that
  \<open>StringContent()\<close> extracts from it (a Go string, i.e. a byte sequence).
\<close>

record Message =
  StringContent :: string

record TextResponseChoice =
  Message :: Message

text \<open>
  Modelled from the spec: \<open>relaymodel.Usage\<close> is not part of the given sources; it is
  the resource-accounting payload that the cache stores without reading it.
\<close>

record Usage =
  PromptTokens :: int64
  CompletionTokens :: int64
  TotalTokens :: int64

text \<open>
  Modelled from the spec: the declaration of \<open>relaymodel.TextResponse\<close> is not part
  of the given sources; the cache reads its choices and its usage.
\<close>

record TextResponse =
  Choices :: "TextResponseChoice list"
  Usage :: Usage

text \<open>
  Modelled from the spec: the declaration of \<open>relaymodel.GeneralOpenAIRequest\<close> is
  not part of the given sources. These are the fields that the cache reads, with the
  types that its uses of them require (\<open>Temperature\<close> and \<open>TopP\<close> are compared with
  \<open>nil\<close> and dereferenced, \<open>MaxTokens\<close> is compared with 0). The request has further
  fields, which the record extension stands for.
\<close>

record GeneralOpenAIRequest =
  Model :: string
  Messages :: "Message list"
  MaxTokens :: int64
  Temperature :: "float64 option"
  TopP :: "float64 option"
  FrequencyPenalty :: "float64 option"
  PresencePenalty :: "float64 option"
  Stream :: bool

text \<open>Values stored under \<open>interface{}\<close>.\<close>

datatype any =
    AnyString string
  | AnyInt int64
  | AnyFloat float64
  | AnyFloatPtr "float64 option"
  | AnyBool bool
  | AnyMessages "Message list"

record LLMCacheItem =
  RequestHash :: string
  Model :: string
  Response :: TextResponse
  Usage :: Usage
  CreatedAt :: int64
  ExpiresAt :: int64
  HitCount :: int64
  LastAccessed :: int64
  RequestParams :: "string \<rightharpoonup> any"

record LLMCacheStats =
  TotalItems :: int64
  Hits :: int64
  Misses :: int64
  Evictions :: int64
  TotalSize :: int64
  MaxSize :: int64

record LLMCacheConfig =
  Enabled :: bool
  TTL :: int64
  MaxSize :: int64
  MinResponseLength :: int64
  MaxResponseLength :: int64
  SimilarityThreshold :: float64

type_synonym item_ptr = nat
type_synonym stats_ptr = nat

text \<open>
  The package-level variables of package \<open>model\<close>, together with the two object
  stores. \<open>llmCache\<close> is the Go map; its entries are kept as an association list
  with distinct keys, whose order stands for the order in which \<open>range\<close> visits them
  (Go leaves that order unspecified). \<open>item_next\<close> and \<open>stats_next\<close> are the next
  addresses that an allocation returns.
\<close>

record cache_state =
  LLMCacheEnabled :: bool
  LLMCacheTTL :: int64
  LLMCacheMaxSize :: int64
  LLMCacheMinResponseLength :: int64
  LLMCacheMaxResponseLength :: int64
  LLMCacheSimilarityThreshold :: float64
  llmCache :: "(string \<times> item_ptr) list"
  llmCacheStats :: stats_ptr
  llmCacheConfig :: LLMCacheConfig
  item_store :: "item_ptr \<Rightarrow> LLMCacheItem"
  item_next :: item_ptr
  stats_store :: "stats_ptr \<Rightarrow> LLMCacheStats"
  stats_next :: stats_ptr

definition zero_stats :: LLMCacheStats where
  "zero_stats = \<lparr>TotalItems = 0, Hits = 0, Misses = 0, Evictions = 0, TotalSize = 0,
     MaxSize = 0\<rparr>"

text \<open>Writing through the pointer \<open>llmCacheStats\<close>.\<close>

definition upd_stats :: "(LLMCacheStats \<Rightarrow> LLMCacheStats) \<Rightarrow> cache_state \<Rightarrow> cache_state" where
  "upd_stats f s =
     s\<lparr>stats_store := (stats_store s)(llmCacheStats s := f (stats_store s (llmCacheStats s)))\<rparr>"

text \<open>\<open>llmCacheStats = &LLMCacheStats{}\<close>: a new zeroed object, and the pointer to it.\<close>

definition new_stats :: "cache_state \<Rightarrow> cache_state" where
  "new_stats s =
     s\<lparr>stats_store := (stats_store s)(stats_next s := zero_stats),
       llmCacheStats := stats_next s,
       stats_next := Suc (stats_next s)\<rparr>"

subsection \<open>GetLLMCache\<close>

text \<open>
  The clock is read twice: \<open>now1\<close> at the expiry test, \<open>now2\<close> when the access time
  is recorded.
\<close>

definition GetLLMCache ::
  "int64 \<Rightarrow> int64 \<Rightarrow> string \<Rightarrow> cache_state \<Rightarrow> (item_ptr option \<times> bool) \<times> cache_state" where
  "GetLLMCache now1 now2 key s =
     (if \<not> LLMCacheEnabled s then ((None, False), s)
      else case map_of (llmCache s) key of
        None \<Rightarrow> ((None, False), upd_stats (\<lambda>st. st\<lparr>Misses := Misses st + 1\<rparr>) s)
      | Some p \<Rightarrow>
          if ExpiresAt (item_store s p) <s now1 then
            ((None, False),
             upd_stats (\<lambda>st. st\<lparr>Misses := Misses st + 1\<rparr>)
               (upd_stats (\<lambda>st. st\<lparr>TotalItems := TotalItems st - 1\<rparr>)
                  (s\<lparr>llmCache := AList.delete key (llmCache s)\<rparr>)))
          else
            ((Some p, True),
             upd_stats (\<lambda>st. st\<lparr>Hits := Hits st + 1\<rparr>)
               (s\<lparr>item_store := (item_store s)
                    (p := (item_store s p)
                       \<lparr>HitCount := HitCount (item_store s p) + 1, LastAccessed := now2\<rparr>)\<rparr>)))"

subsection \<open>evictLRU and SetLLMCache\<close>

text \<open>The \<open>range\<close> loop of \<open>evictLRU\<close>, carrying \<open>oldestKey\<close> and \<open>oldestTime\<close>.\<close>

fun evict_scan ::
  "(item_ptr \<Rightarrow> LLMCacheItem) \<Rightarrow> (string \<times> item_ptr) list \<Rightarrow> string \<times> int64 \<Rightarrow> string \<times> int64" where
  "evict_scan h [] acc = acc"
| "evict_scan h ((key, p) # rest) (oldestKey, oldestTime) =
     (if LastAccessed (h p) <s oldestTime
      then evict_scan h rest (key, LastAccessed (h p))
      else evict_scan h rest (oldestKey, oldestTime))"

definition evictLRU :: "int64 \<Rightarrow> cache_state \<Rightarrow> cache_state" where
  "evictLRU now s =
     (let oldestKey = fst (evict_scan (item_store s) (llmCache s) ('''', now))
      in if oldestKey \<noteq> ''''
         then upd_stats (\<lambda>st. st\<lparr>Evictions := Evictions st + 1\<rparr>)
                (s\<lparr>llmCache := AList.delete oldestKey (llmCache s)\<rparr>)
         else s)"

definition responseText :: "TextResponse \<Rightarrow> string" where
  "responseText response =
     (case Choices response of [] \<Rightarrow> '''' | c # _ \<Rightarrow> StringContent (Message c))"

definition length_out_of_range :: "cache_state \<Rightarrow> string \<Rightarrow> bool" where
  "length_out_of_range s text \<longleftrightarrow>
     int (length text) < sint (LLMCacheMinResponseLength s) \<or>
     int (length text) > sint (LLMCacheMaxResponseLength s)"

definition request_params :: "'a GeneralOpenAIRequest_scheme \<Rightarrow> string \<rightharpoonup> any" where
  "request_params request =
     (let m0 = Map.empty;
          m1 = (case Temperature request of None \<Rightarrow> m0
                | Some t \<Rightarrow> m0(''temperature'' \<mapsto> AnyFloat t));
          m2 = (case TopP request of None \<Rightarrow> m1 | Some t \<Rightarrow> m1(''top_p'' \<mapsto> AnyFloat t));
          m3 = (if MaxTokens request \<noteq> 0 then m2(''max_tokens'' \<mapsto> AnyInt (MaxTokens request))
                else m2)
      in m3)"

text \<open>
  The clock is read twice: \<open>now\<close> when the item is built, \<open>now2\<close> inside
  \<open>evictLRU\<close>. The conversion \<open>int64(LLMCacheTTL)\<close> is the identity on a 64-bit
  platform, and the addition wraps around.
\<close>

definition SetLLMCache ::
  "int64 \<Rightarrow> int64 \<Rightarrow> string \<Rightarrow> TextResponse \<Rightarrow> Usage \<Rightarrow>
     'a GeneralOpenAIRequest_scheme \<Rightarrow> cache_state \<Rightarrow> cache_state" where
  "SetLLMCache now now2 key response usage request s =
     (if \<not> LLMCacheEnabled s then s
      else if length_out_of_range s (responseText response) then s
      else
        let item = \<lparr>RequestHash = key,
                    Model = GeneralOpenAIRequest.Model request,
                    Response = response,
                    Usage = usage,
                    CreatedAt = now,
                    ExpiresAt = now + LLMCacheTTL s,
                    HitCount = 0,
                    LastAccessed = now,
                    RequestParams = request_params request\<rparr>;
            p = item_next s;
            s1 = s\<lparr>item_store := (item_store s)(p := item), item_next := Suc p\<rparr>;
            s2 = (if int (length (llmCache s1)) \<ge> sint (LLMCacheMaxSize s1)
                  then evictLRU now2 s1 else s1);
            s3 = s2\<lparr>llmCache := AList.update key p (llmCache s2)\<rparr>
        in upd_stats (\<lambda>st. st\<lparr>TotalItems := TotalItems st + 1\<rparr>) s3)"

subsection \<open>GetLLMCacheStats, GetLLMCacheItems, UpdateLLMCacheConfig\<close>

text \<open>
  \<open>GetLLMCacheStats\<close> copies the statistics object into a new object, overwrites two
  fields of the copy and returns the address of the copy.
\<close>

definition GetLLMCacheStats :: "cache_state \<Rightarrow> stats_ptr \<times> cache_state" where
  "GetLLMCacheStats s =
     (let stats = stats_store s (llmCacheStats s);
          stats = stats\<lparr>TotalItems := of_nat (length (llmCache s))\<rparr>;
          stats = stats\<lparr>LLMCacheStats.MaxSize := LLMCacheMaxSize s\<rparr>;
          r = stats_next s
      in (r, s\<lparr>stats_store := (stats_store s)(r := stats), stats_next := Suc r\<rparr>))"

text \<open>
  \<open>GetLLMCacheItems\<close> builds a new slice and appends to it the pointer stored under
  each key.
\<close>

definition GetLLMCacheItems :: "cache_state \<Rightarrow> item_ptr list" where
  "GetLLMCacheItems s = foldl (\<lambda>items (key, item). items @ [item]) [] (llmCache s)"

definition UpdateLLMCacheConfig :: "LLMCacheConfig \<Rightarrow> cache_state \<Rightarrow> cache_state" where
  "UpdateLLMCacheConfig config s =
     (let s1 = s\<lparr>llmCacheConfig := config\<rparr>
      in if \<not> Enabled config then new_stats (s1\<lparr>llmCache := []\<rparr>) else s1)"

text \<open>
  What a caller can do with a returned pointer: assign to the fields of the object it
  points to.
\<close>

definition write_item :: "item_ptr \<Rightarrow> (LLMCacheItem \<Rightarrow> LLMCacheItem) \<Rightarrow> cache_state \<Rightarrow> cache_state" where
  "write_item p f s = s\<lparr>item_store := (item_store s)(p := f (item_store s p))\<rparr>"

definition write_stats :: "stats_ptr \<Rightarrow> (LLMCacheStats \<Rightarrow> LLMCacheStats) \<Rightarrow> cache_state \<Rightarrow> cache_state" where
  "write_stats r f s = s\<lparr>stats_store := (stats_store s)(r := f (stats_store s r))\<rparr>"

subsection \<open>GenerateCacheKey\<close>






subsection \<open>The middleware: shouldCache, handleCacheResponse\<close>

text \<open>\<open>strings.Contains\<close>.\<close>

fun HasPrefix :: "string \<Rightarrow> string \<Rightarrow> bool" where
  "HasPrefix s [] = True"
| "HasPrefix [] (c # cs) = False"
| "HasPrefix (d # ds) (c # cs) = (d = c \<and> HasPrefix ds cs)"

fun Contains :: "string \<Rightarrow> string \<Rightarrow> bool" where
  "Contains [] substr = HasPrefix [] substr"
| "Contains (d # ds) substr = (HasPrefix (d # ds) substr \<or> Contains ds substr)"

text \<open>
  \<open>strings.ToLower\<close> is the parameter \<open>lower\<close>, and \<open>json.Unmarshal\<close> into a
  \<open>TextResponse\<close> is the parameter \<open>unmarshal\<close>, \<open>None\<close> where it returns an error.
\<close>

definition shouldCache :: "(string \<Rightarrow> string) \<Rightarrow> cache_state \<Rightarrow> TextResponse \<Rightarrow> bool" where
  "shouldCache lower s response =
     (case Choices response of
        [] \<Rightarrow> False
      | c # _ \<Rightarrow>
          let text = StringContent (Message c) in
          if int (length text) < sint (LLMCacheMinResponseLength s) \<or>
             int (length text) > sint (LLMCacheMaxResponseLength s) then False
          else
            let content = lower text in
            if Contains content ''error'' \<or> Contains content ''sorry'' \<or>
               Contains content ''cannot'' then False
            else True)"

definition handleCacheResponse ::
  "(string \<Rightarrow> TextResponse option) \<Rightarrow> (string \<Rightarrow> string) \<Rightarrow> int64 \<Rightarrow> int64 \<Rightarrow> string \<Rightarrow>
     'a GeneralOpenAIRequest_scheme \<Rightarrow> string \<Rightarrow> cache_state \<Rightarrow> cache_state" where
  "handleCacheResponse unmarshal lower now now2 cacheKey request responseBody s =
     (case unmarshal responseBody of
        None \<Rightarrow> s
      | Some response \<Rightarrow>
          if \<not> shouldCache lower s response then s
          else SetLLMCache now now2 cacheKey response (TextResponse.Usage response)
                 request s)"

text \<open>
  The end of \<open>LLMCacheMiddleware\<close>, after the downstream handlers have run: the
  captured body is handed to \<open>handleCacheResponse\<close> when the captured status is 200.
\<close>

definition LLMCacheMiddleware_captured ::
  "(string \<Rightarrow> TextResponse option) \<Rightarrow> (string \<Rightarrow> string) \<Rightarrow> int64 \<Rightarrow> int64 \<Rightarrow> string \<Rightarrow>
     'a GeneralOpenAIRequest_scheme \<Rightarrow> int \<Rightarrow> string \<Rightarrow> cache_state \<Rightarrow> cache_state" where
  "LLMCacheMiddleware_captured unmarshal lower now now2 cacheKey request statusCode body s =
     (if statusCode = 200
      then handleCacheResponse unmarshal lower now now2 cacheKey request body s
      else s)"

subsection \<open>The state at process start\<close>

definition init_config :: LLMCacheConfig where
  "init_config = \<lparr>Enabled = False, TTL = 3600, MaxSize = 10000, MinResponseLength = 10,
     MaxResponseLength = 10000, SimilarityThreshold = 0x3FEE666666666666\<rparr>"

definition no_usage :: Usage where
  "no_usage = \<lparr>PromptTokens = 0, CompletionTokens = 0, TotalTokens = 0\<rparr>"

definition empty_item :: LLMCacheItem where
  "empty_item = \<lparr>RequestHash = '''', Model = '''',
     Response = \<lparr>Choices = [], Usage = no_usage\<rparr>, Usage = no_usage,
     CreatedAt = 0, ExpiresAt = 0, HitCount = 0, LastAccessed = 0, RequestParams = Map.empty\<rparr>"

text \<open>
  The initial values of the package-level variables. No item has been allocated (the
  item store is filled with a placeholder); the statistics object is at address 0.
\<close>

definition init_state :: cache_state where
  "init_state = \<lparr>LLMCacheEnabled = True, LLMCacheTTL = 3600, LLMCacheMaxSize = 10000,
     LLMCacheMinResponseLength = 10, LLMCacheMaxResponseLength = 10000,
     LLMCacheSimilarityThreshold = 0x3FEE666666666666,
     llmCache = [], llmCacheStats = 0, llmCacheConfig = init_config,
     item_store = (\<lambda>_. empty_item), item_next = 0,
     stats_store = (\<lambda>_. zero_stats), stats_next = 1\<rparr>"

text \<open>The statistics object that \<open>llmCacheStats\<close> points to.\<close>

definition cur_stats :: "cache_state \<Rightarrow> LLMCacheStats" where
  "cur_stats s = stats_store s (llmCacheStats s)"

text \<open>A response of twelve bytes and a request, for the concrete runs below.\<close>

definition sample_response :: TextResponse where
  "sample_response =
     \<lparr>Choices = [\<lparr>Message = \<lparr>StringContent = ''Hello, world''\<rparr>\<rparr>],
      Usage = \<lparr>PromptTokens = 1, CompletionTokens = 2, TotalTokens = 3\<rparr>\<rparr>"

definition sample_request :: GeneralOpenAIRequest where
  "sample_request =
     \<lparr>GeneralOpenAIRequest.Model = ''gpt-4'', Messages = [\<lparr>StringContent = ''Hi''\<rparr>],
      MaxTokens = 16, Temperature = None, TopP = None, FrequencyPenalty = None,
      PresencePenalty = None, Stream = False\<rparr>"

text \<open>
  The statistics pointer refers to an allocated object. This holds at process start and
  every operation keeps it.
\<close>

definition stats_allocated :: "cache_state \<Rightarrow> bool" where
  "stats_allocated s \<longleftrightarrow> llmCacheStats s < stats_next s"

text \<open>
  Concrete stand-ins for the library functions in the runs below: lowercasing of the
  ASCII letters, a serializer that writes the model name and fails on an empty one, and
  a two-byte digest.
\<close>

definition ascii_lower :: "string \<Rightarrow> string" where
  "ascii_lower = map (\<lambda>c. case map_of (zip ''ABCDEFGHIJKLMNOPQRSTUVWXYZ''
                                             ''abcdefghijklmnopqrstuvwxyz'') c of
                          None \<Rightarrow> c | Some d \<Rightarrow> d)"



definition refusing_response :: TextResponse where
  "refusing_response =
     \<lparr>Choices = [\<lparr>Message = \<lparr>StringContent = ''Sorry, I CANNOT do that''\<rparr>\<rparr>],
      Usage = \<lparr>PromptTokens = 1, CompletionTokens = 2, TotalTokens = 3\<rparr>\<rparr>"

definition short_response :: TextResponse where
  "short_response =
     \<lparr>Choices = [\<lparr>Message = \<lparr>StringContent = ''Hi!''\<rparr>\<rparr>],
      Usage = \<lparr>PromptTokens = 1, CompletionTokens = 2, TotalTokens = 3\<rparr>\<rparr>"

text \<open>The store after one accepted insertion of key \<open>k\<close> at time 100.\<close>

definition one_entry_state :: cache_state where
  "one_entry_state =
     SetLLMCache 100 100 ''k'' sample_response (TextResponse.Usage sample_response)
       sample_request init_state"

section \<open>Properties\<close>

subsection \<open>Frame lemmas\<close>

lemma upd_stats_fields [simp]:
  "llmCache (upd_stats f s) = llmCache s"
  "LLMCacheEnabled (upd_stats f s) = LLMCacheEnabled s"
  "item_store (upd_stats f s) = item_store s"
  "llmCacheStats (upd_stats f s) = llmCacheStats s"
  "stats_next (upd_stats f s) = stats_next s"
  "cur_stats (upd_stats f s) = f (cur_stats s)"
  by (simp_all add: upd_stats_def cur_stats_def)

lemma evictLRU_fields [simp]:
  "LLMCacheEnabled (evictLRU now s) = LLMCacheEnabled s"
  "item_store (evictLRU now s) = item_store s"
  "llmCacheStats (evictLRU now s) = llmCacheStats s"
  "stats_next (evictLRU now s) = stats_next s"
  by (simp_all add: evictLRU_def Let_def)

text \<open>The gate of both operations is the package variable \<open>LLMCacheEnabled\<close>.\<close>

lemma SetLLMCache_disabled:
  "\<not> LLMCacheEnabled s \<Longrightarrow> SetLLMCache now now2 key response usage request s = s"
  by (simp add: SetLLMCache_def)

lemma GetLLMCache_disabled:
  "\<not> LLMCacheEnabled s \<Longrightarrow> GetLLMCache now1 now2 key s = ((None, False), s)"
  by (simp add: GetLLMCache_def)


lemma one_entry_state_fields:
  "LLMCacheEnabled one_entry_state"
  "llmCache one_entry_state = [(''k'', 0)]"
  "llmCacheStats one_entry_state = 0"
  "stats_next one_entry_state = 1"
  "HitCount (item_store one_entry_state 0) = 0"
  "ExpiresAt (item_store one_entry_state 0) = 3700"
  by (simp_all add: one_entry_state_def SetLLMCache_def init_state_def sample_response_def
      sample_request_def responseText_def length_out_of_range_def Let_def)

lemma stats_allocated_init: "stats_allocated init_state"
  by (simp add: stats_allocated_def init_state_def)

lemma stats_allocated_preserved:
  assumes "stats_allocated s"
  shows "stats_allocated (snd (GetLLMCache now1 now2 key s))"
    and "stats_allocated (SetLLMCache now now2 key response usage request s)"
    and "stats_allocated (UpdateLLMCacheConfig config s)"
    and "stats_allocated (snd (GetLLMCacheStats s))"
  using assms
  by (simp_all add: stats_allocated_def GetLLMCache_def SetLLMCache_def
      UpdateLLMCacheConfig_def GetLLMCacheStats_def new_stats_def Let_def split: option.splits)

lemma GetLLMCacheItems_eq: "GetLLMCacheItems s = map snd (llmCache s)"
proof -
  have "foldl (\<lambda>items (key, item). items @ [item]) acc xs = acc @ map snd xs"
    for acc :: "item_ptr list" and xs :: "(string \<times> item_ptr) list"
    by (induction xs arbitrary: acc) (simp_all add: case_prod_beta)
  then show ?thesis
    by (simp add: GetLLMCacheItems_def)
qed

subsection \<open>The enabled flag\<close>

text \<open>
  C1, evaluated on the code. The claim: whenever the enabled flag of the current
  configuration is false, for instance right after \<open>UpdateLLMCacheConfig\<close> was called
  with \<open>Enabled = false\<close>, a lookup finds nothing and an insertion is a no-op.
  \<open>GetLLMCache\<close> and \<open>SetLLMCache\<close> test the package variable \<open>LLMCacheEnabled\<close>,
  which \<open>UpdateLLMCacheConfig\<close> never writes. From the state at process start, after
  the configuration has been replaced by one whose \<open>Enabled\<close> is false, an insertion
  of key \<open>k\<close> is stored and the lookup that follows returns it.
\<close>

theorem config_disabled_insert_still_cached:
  "\<not> Enabled (llmCacheConfig (UpdateLLMCacheConfig (init_config\<lparr>Enabled := False\<rparr>) init_state)) \<and>
   llmCache (UpdateLLMCacheConfig (init_config\<lparr>Enabled := False\<rparr>) init_state) = [] \<and>
   llmCache (SetLLMCache 100 100 ''k'' sample_response (TextResponse.Usage sample_response)
               sample_request
               (UpdateLLMCacheConfig (init_config\<lparr>Enabled := False\<rparr>) init_state))
     = [(''k'', 0)] \<and>
   fst (GetLLMCache 100 100 ''k''
          (SetLLMCache 100 100 ''k'' sample_response (TextResponse.Usage sample_response)
             sample_request
             (UpdateLLMCacheConfig (init_config\<lparr>Enabled := False\<rparr>) init_state)))
     = (Some 0, True)"
  by (simp add: GetLLMCache_def SetLLMCache_def UpdateLLMCacheConfig_def new_stats_def
      init_state_def init_config_def sample_response_def sample_request_def responseText_def
      length_out_of_range_def upd_stats_def Let_def word_sless_alt)

text \<open>
  C10. When the cache is disabled (\<open>LLMCacheEnabled\<close> is false), \<open>GetLLMCache\<close>
  answers not-found and returns the state as it was, the miss counter included; on an
  enabled store, a lookup of an absent key answers not-found too, but adds one to the
  miss counter.
\<close>

theorem disabled_lookup_changes_nothing:
  assumes "\<not> LLMCacheEnabled s"
    and "LLMCacheEnabled s'" and "map_of (llmCache s') key' = None"
  shows "GetLLMCache now1 now2 key s = ((None, False), s) \<and>
         fst (GetLLMCache now1 now2 key' s') = (None, False) \<and>
         Misses (cur_stats (snd (GetLLMCache now1 now2 key' s'))) = Misses (cur_stats s') + 1"
  using assms by (simp add: GetLLMCache_def)

theorem disabled_lookup_changes_nothing_witness:
  "\<not> LLMCacheEnabled (one_entry_state\<lparr>LLMCacheEnabled := False\<rparr>) \<and>
   LLMCacheEnabled init_state \<and> map_of (llmCache init_state) ''k'' = None \<and>
   GetLLMCache 100 100 ''k'' (one_entry_state\<lparr>LLMCacheEnabled := False\<rparr>)
     = ((None, False), one_entry_state\<lparr>LLMCacheEnabled := False\<rparr>) \<and>
   fst (GetLLMCache 100 100 ''k'' init_state) = (None, False) \<and>
   Misses (cur_stats (snd (GetLLMCache 100 100 ''k'' init_state))) = 1"
  using disabled_lookup_changes_nothing
    [of "one_entry_state\<lparr>LLMCacheEnabled := False\<rparr>" init_state "''k''" 100 100 "''k''"]
  by (simp add: init_state_def cur_stats_def zero_stats_def)

text \<open>
  C6. A configuration update whose \<open>Enabled\<close> is false empties the map and replaces
  the statistics object by a zeroed one, in the one step that stores the new
  configuration; directly afterwards the lookup of any key answers not-found, and the
  snapshot of \<open>GetLLMCacheStats\<close> reports \<open>TotalItems = 0\<close>.
\<close>

theorem disable_clears_store:
  assumes "\<not> Enabled config"
  shows "llmCache (UpdateLLMCacheConfig config s) = [] \<and>
         cur_stats (UpdateLLMCacheConfig config s) = zero_stats \<and>
         llmCacheConfig (UpdateLLMCacheConfig config s) = config \<and>
         fst (GetLLMCache now1 now2 key (UpdateLLMCacheConfig config s)) = (None, False) \<and>
         TotalItems (stats_store (snd (GetLLMCacheStats (UpdateLLMCacheConfig config s)))
                      (fst (GetLLMCacheStats (UpdateLLMCacheConfig config s)))) = 0"
  using assms
  by (simp add: UpdateLLMCacheConfig_def new_stats_def cur_stats_def GetLLMCache_def
      GetLLMCacheStats_def Let_def)

theorem disable_clears_store_witness:
  "\<not> Enabled init_config \<and>
   fst (GetLLMCache 100 100 ''k'' one_entry_state) = (Some 0, True) \<and>
   llmCache (UpdateLLMCacheConfig init_config one_entry_state) = [] \<and>
   cur_stats (UpdateLLMCacheConfig init_config one_entry_state) = zero_stats \<and>
   fst (GetLLMCache 100 100 ''k'' (UpdateLLMCacheConfig init_config one_entry_state))
     = (None, False) \<and>
   TotalItems (stats_store (snd (GetLLMCacheStats (UpdateLLMCacheConfig init_config one_entry_state)))
                (fst (GetLLMCacheStats (UpdateLLMCacheConfig init_config one_entry_state)))) = 0"
  using disable_clears_store [of init_config one_entry_state 100 100 "''k''"]
  by (simp add: init_config_def GetLLMCache_def one_entry_state_fields word_sless_alt)

subsection \<open>Gating of insertions\<close>

text \<open>
  C7. An insertion of a response whose extracted text is shorter than
  \<open>LLMCacheMinResponseLength\<close> or longer than \<open>LLMCacheMaxResponseLength\<close> returns
  without an error and leaves the whole state as it was, so every later lookup answers
  as it would have without the insertion; \<open>shouldCache\<close> refuses such a response too.
\<close>

theorem length_gate_rejects:
  assumes "int (length (responseText response)) < sint (LLMCacheMinResponseLength s) \<or>
           int (length (responseText response)) > sint (LLMCacheMaxResponseLength s)"
  shows "SetLLMCache now now2 key response usage request s = s \<and>
         GetLLMCache t1 t2 k (SetLLMCache now now2 key response usage request s)
           = GetLLMCache t1 t2 k s \<and>
         \<not> shouldCache lower s response"
proof -
  from assms have unchanged: "SetLLMCache now now2 key response usage request s = s"
    by (simp add: SetLLMCache_def length_out_of_range_def)
  from assms have "\<not> shouldCache lower s response"
    by (cases "Choices response") (auto simp add: shouldCache_def responseText_def Let_def)
  with unchanged show ?thesis
    by simp
qed

theorem length_gate_rejects_witness:
  "int (length (responseText short_response)) < sint (LLMCacheMinResponseLength init_state) \<and>
   SetLLMCache 100 100 ''k'' short_response (TextResponse.Usage short_response)
     sample_request init_state = init_state \<and>
   fst (GetLLMCache 100 100 ''k''
          (SetLLMCache 100 100 ''k'' short_response (TextResponse.Usage short_response)
             sample_request init_state)) = (None, False) \<and>
   \<not> shouldCache ascii_lower init_state short_response"
  using length_gate_rejects [of short_response init_state 100 100 "''k''"
      "TextResponse.Usage short_response" sample_request 100 100 "''k''" ascii_lower]
  by (simp add: short_response_def responseText_def init_state_def GetLLMCache_def)

text \<open>
  C9. A response captured with status 200 whose first choice's text, lowercased,
  contains \<open>error\<close>, \<open>sorry\<close> or \<open>cannot\<close> is refused by \<open>shouldCache\<close> whatever its
  length, and the middleware leaves the cache state as it was: no entry is created.
\<close>

theorem refusal_words_never_cached:
  assumes "unmarshal body = Some response"
    and "Choices response = c # cs"
    and "Contains (lower (StringContent (Message c))) ''error'' \<or>
         Contains (lower (StringContent (Message c))) ''sorry'' \<or>
         Contains (lower (StringContent (Message c))) ''cannot''"
  shows "\<not> shouldCache lower s response \<and>
         LLMCacheMiddleware_captured unmarshal lower now now2 key request 200 body s = s"
  using assms
  by (auto simp add: LLMCacheMiddleware_captured_def handleCacheResponse_def shouldCache_def
      Let_def)

theorem refusal_words_never_cached_witness:
  "Choices refusing_response = [\<lparr>Message = \<lparr>StringContent = ''Sorry, I CANNOT do that''\<rparr>\<rparr>] \<and>
   \<not> length_out_of_range init_state ''Sorry, I CANNOT do that'' \<and>
   Contains (ascii_lower ''Sorry, I CANNOT do that'') ''sorry'' \<and>
   \<not> shouldCache ascii_lower init_state refusing_response \<and>
   LLMCacheMiddleware_captured (\<lambda>_. Some refusing_response) ascii_lower 100 100 ''k''
     sample_request 200 ''{}'' init_state = init_state"
  using refusal_words_never_cached [of "\<lambda>_. Some refusing_response" "''{}''" refusing_response
      "\<lparr>Message = \<lparr>StringContent = ''Sorry, I CANNOT do that''\<rparr>\<rparr>" "[]" ascii_lower
      init_state 100 100 "''k''" sample_request]
  by (simp add: refusing_response_def ascii_lower_def length_out_of_range_def init_state_def)

subsection \<open>Expiry\<close>




subsection \<open>Capacity and eviction\<close>

text \<open>
  What \<open>evictLRU\<close> does: when the entry with the strictly smallest access time was
  last accessed before the current second and its key is not the empty string, that
  entry is removed and the eviction counter goes up by one; when no entry was last
  accessed before the current second, nothing happens.
\<close>

lemma evict_scan_unique_min:
  assumes "\<forall>(k', p') \<in> set xs. (k', p') \<noteq> (k, p) \<longrightarrow> LastAccessed (h p) <s LastAccessed (h p')"
    and "((k, p) \<in> set xs \<and> LastAccessed (h p) <s t0) \<or> (k0, t0) = (k, LastAccessed (h p))"
  shows "evict_scan h xs (k0, t0) = (k, LastAccessed (h p))"
  using assms
proof (induction xs arbitrary: k0 t0)
  case Nil
  then show ?case by simp
next
  case (Cons e rest)
  obtain key q where e: "e = (key, q)" by (cases e)
  show ?case
  proof (cases "(key, q) = (k, p)")
    case True
    with Cons.prems e have "evict_scan h (e # rest) (k0, t0) = evict_scan h rest (k, LastAccessed (h p))"
      by auto
    also have "\<dots> = (k, LastAccessed (h p))"
      using Cons.prems by (intro Cons.IH) auto
    finally show ?thesis .
  next
    case False
    with Cons.prems e have older: "LastAccessed (h p) <s LastAccessed (h q)"
      by auto
    show ?thesis
    proof (cases "LastAccessed (h q) <s t0")
      case True
      with older Cons.prems(2) False e have "(k, p) \<in> set rest"
        by (auto dest: signed.less_asym)
      with True e older Cons.prems(1) show ?thesis
        by (simp add: Cons.IH)
    next
      case False
      with e have "evict_scan h (e # rest) (k0, t0) = evict_scan h rest (k0, t0)"
        by simp
      also have "\<dots> = (k, LastAccessed (h p))"
        using Cons.prems \<open>(key, q) \<noteq> (k, p)\<close> e by (intro Cons.IH) auto
      finally show ?thesis .
    qed
  qed
qed

lemma evictLRU_removes_oldest:
  assumes "(k, p) \<in> set (llmCache s)"
    and "\<forall>(k', p') \<in> set (llmCache s). (k', p') \<noteq> (k, p) \<longrightarrow>
           LastAccessed (item_store s p) <s LastAccessed (item_store s p')"
    and "LastAccessed (item_store s p) <s now"
    and "k \<noteq> ''''"
  shows "evictLRU now s =
           upd_stats (\<lambda>st. st\<lparr>Evictions := Evictions st + 1\<rparr>)
             (s\<lparr>llmCache := AList.delete k (llmCache s)\<rparr>)"
proof -
  have "evict_scan (item_store s) (llmCache s) ('''', now) = (k, LastAccessed (item_store s p))"
    using assms(1-3) by (intro evict_scan_unique_min) auto
  with assms(4) show ?thesis
    by (simp add: evictLRU_def)
qed

lemma evictLRU_nothing_older:
  assumes "\<forall>(k', p') \<in> set (llmCache s). \<not> LastAccessed (item_store s p') <s now"
  shows "evictLRU now s = s"
proof -
  have "evict_scan h xs acc = acc" if "\<forall>(k', p') \<in> set xs. \<not> LastAccessed (h p') <s snd acc"
    for h xs and acc :: "string \<times> int64"
    using that by (induction h xs acc rule: evict_scan.induct) auto
  from this [of "llmCache s" "item_store s" "('''', now)"] assms show ?thesis
    by (simp add: evictLRU_def)
qed

text \<open>
  Hence an accepted insertion of a new key into a store at capacity, all of whose
  entries were last accessed in the current second or later, makes the store one entry
  larger and leaves the eviction counter alone, whatever the capacity is.
\<close>

lemma length_update_new:
  "k \<notin> fst ` set al \<Longrightarrow> length (AList.update k v al) = Suc (length al)"
  by (induction al) auto

lemma SetLLMCache_overflows:
  assumes "LLMCacheEnabled s"
    and "\<not> length_out_of_range s (responseText response)"
    and "int (length (llmCache s)) \<ge> sint (LLMCacheMaxSize s)"
    and "\<forall>(k', p') \<in> set (llmCache s). \<not> LastAccessed (item_store s p') <s now2"
    and "\<forall>(k', p') \<in> set (llmCache s). p' < item_next s"
    and "key \<notin> fst ` set (llmCache s)"
  shows "length (llmCache (SetLLMCache now now2 key response usage request s))
           = Suc (length (llmCache s))"
    and "Evictions (cur_stats (SetLLMCache now now2 key response usage request s))
           = Evictions (cur_stats s)"
proof -
  let ?s1 = "s\<lparr>item_store := (item_store s)
      (item_next s := \<lparr>RequestHash = key, Model = GeneralOpenAIRequest.Model request,
         Response = response, Usage = usage, CreatedAt = now,
         ExpiresAt = now + LLMCacheTTL s, HitCount = 0, LastAccessed = now,
         RequestParams = request_params request\<rparr>),
      item_next := Suc (item_next s)\<rparr>"
  have "\<forall>(k', p') \<in> set (llmCache ?s1). \<not> LastAccessed (item_store ?s1 p') <s now2"
    using assms(4,5) by fastforce
  then have "evictLRU now2 ?s1 = ?s1"
    by (rule evictLRU_nothing_older)
  with assms(1-3,6) show
    "length (llmCache (SetLLMCache now now2 key response usage request s))
       = Suc (length (llmCache s))"
    "Evictions (cur_stats (SetLLMCache now now2 key response usage request s))
       = Evictions (cur_stats s)"
    by (simp_all add: SetLLMCache_def Let_def length_update_new cur_stats_def upd_stats_def)
qed

text \<open>
  C2, evaluated on the code. The claim: with a fixed capacity \<open>N\<close> the store never
  holds more than \<open>N\<close> entries, and every insertion at capacity evicts exactly one
  entry. \<open>evictLRU\<close> starts its scan with \<open>oldestTime\<close> set to the current second and
  replaces it only by a strictly smaller access time, so an entry accessed in the
  current second is never chosen. With capacity 1, two insertions of different keys
  within the second 100 leave two entries in the map and the eviction counter at 0.
\<close>

theorem capacity_exceeded_same_second:
  "LLMCacheMaxSize (init_state\<lparr>LLMCacheMaxSize := 1\<rparr>) = 1 \<and>
   llmCache (SetLLMCache 100 100 ''b'' sample_response (TextResponse.Usage sample_response)
      sample_request
      (SetLLMCache 100 100 ''a'' sample_response (TextResponse.Usage sample_response)
         sample_request (init_state\<lparr>LLMCacheMaxSize := 1\<rparr>)))
     = [(''a'', 0), (''b'', 1)] \<and>
   Evictions (cur_stats (SetLLMCache 100 100 ''b'' sample_response
      (TextResponse.Usage sample_response) sample_request
      (SetLLMCache 100 100 ''a'' sample_response (TextResponse.Usage sample_response)
         sample_request (init_state\<lparr>LLMCacheMaxSize := 1\<rparr>)))) = 0"
  by (simp add: SetLLMCache_def evictLRU_def init_state_def sample_response_def
      sample_request_def responseText_def length_out_of_range_def upd_stats_def Let_def
      word_sless_alt cur_stats_def zero_stats_def)

text \<open>
  C4, evaluated on the code. The claim: an insertion at capacity removes the entry with
  the smallest \<open>LastAccessed\<close> and increments the eviction counter. In the run of C2
  the only live entry at the second insertion is \<open>a\<close>, with \<open>LastAccessed = 100\<close>;
  \<open>evictLRU\<close>, called in the second 100, removes nothing: \<open>a\<close> is still in the map
  afterwards and the eviction counter is still 0.
\<close>

theorem oldest_entry_survives_same_second:
  "length (llmCache (SetLLMCache 100 100 ''a'' sample_response
      (TextResponse.Usage sample_response) sample_request
      (init_state\<lparr>LLMCacheMaxSize := 1\<rparr>))) = 1 \<and>
   evictLRU 100 (SetLLMCache 100 100 ''a'' sample_response
      (TextResponse.Usage sample_response) sample_request
      (init_state\<lparr>LLMCacheMaxSize := 1\<rparr>))
     = SetLLMCache 100 100 ''a'' sample_response
         (TextResponse.Usage sample_response) sample_request
         (init_state\<lparr>LLMCacheMaxSize := 1\<rparr>) \<and>
   map_of (llmCache (SetLLMCache 100 100 ''b'' sample_response
      (TextResponse.Usage sample_response) sample_request
      (SetLLMCache 100 100 ''a'' sample_response (TextResponse.Usage sample_response)
         sample_request (init_state\<lparr>LLMCacheMaxSize := 1\<rparr>)))) ''a'' = Some 0 \<and>
   LastAccessed (item_store (SetLLMCache 100 100 ''b'' sample_response
      (TextResponse.Usage sample_response) sample_request
      (SetLLMCache 100 100 ''a'' sample_response (TextResponse.Usage sample_response)
         sample_request (init_state\<lparr>LLMCacheMaxSize := 1\<rparr>))) 0) = 100 \<and>
   Evictions (cur_stats (SetLLMCache 100 100 ''b'' sample_response
      (TextResponse.Usage sample_response) sample_request
      (SetLLMCache 100 100 ''a'' sample_response (TextResponse.Usage sample_response)
         sample_request (init_state\<lparr>LLMCacheMaxSize := 1\<rparr>)))) = 0"
  by (simp add: SetLLMCache_def evictLRU_def init_state_def sample_response_def
      sample_request_def responseText_def length_out_of_range_def upd_stats_def Let_def
      word_sless_alt cur_stats_def zero_stats_def)

subsection \<open>The fingerprint\<close>








subsection \<open>What the diagnostic operations return\<close>

text \<open>
  C8, as stated, fails for \<open>GetLLMCacheItems\<close>. The claim: no mutation made through a
  value returned by the listing can change a live entry. After one insertion of key
  \<open>k\<close> the listing returns the pointer that the map holds for \<open>k\<close>; the hit count of
  that entry is 0, and after an assignment to the hit count through the listed pointer
  the entry of \<open>k\<close> in the store has the hit count 7.
\<close>

theorem listed_pointer_reaches_live_entry:
  "GetLLMCacheItems one_entry_state = [0] \<and>
   map_of (llmCache one_entry_state) ''k'' = Some 0 \<and>
   HitCount (item_store one_entry_state 0) = 0 \<and>
   map_of (llmCache (write_item 0 (HitCount_update (\<lambda>_. 7)) one_entry_state)) ''k'' = Some 0 \<and>
   HitCount (item_store (write_item 0 (HitCount_update (\<lambda>_. 7)) one_entry_state) 0) = 7"
  by (simp add: GetLLMCacheItems_def write_item_def one_entry_state_fields)

text \<open>
  C8, amended. \<open>GetLLMCacheStats\<close> returns a pointer to a new object, different from
  the one the store counts in: whatever is assigned through it, the store's counters,
  its map and its entries stay as they were. \<open>GetLLMCacheItems\<close> returns a new list
  of the store's own entry pointers, one for each key of the map: the pointer of every
  live key is in it, and an assignment through that pointer changes the live entry.
\<close>

theorem stats_copied_items_shared:
  assumes "stats_allocated s"
    and "map_of (llmCache s) key = Some p"
  shows "fst (GetLLMCacheStats s) \<noteq> llmCacheStats (snd (GetLLMCacheStats s)) \<and>
         cur_stats (write_stats (fst (GetLLMCacheStats s)) f (snd (GetLLMCacheStats s)))
           = cur_stats s \<and>
         llmCache (write_stats (fst (GetLLMCacheStats s)) f (snd (GetLLMCacheStats s)))
           = llmCache s \<and>
         item_store (write_stats (fst (GetLLMCacheStats s)) f (snd (GetLLMCacheStats s)))
           = item_store s \<and>
         GetLLMCacheItems s = map snd (llmCache s) \<and>
         p \<in> set (GetLLMCacheItems s) \<and>
         map_of (llmCache (write_item p g s)) key = Some p \<and>
         item_store (write_item p g s) p = g (item_store s p)"
proof -
  from assms(2) have "(key, p) \<in> set (llmCache s)"
    by (rule map_of_SomeD)
  then have "p \<in> set (GetLLMCacheItems s)"
    by (force simp add: GetLLMCacheItems_eq)
  with assms show ?thesis
    by (simp add: GetLLMCacheItems_eq GetLLMCacheStats_def write_stats_def write_item_def
        cur_stats_def stats_allocated_def Let_def)
qed

theorem stats_copied_items_shared_witness:
  "stats_allocated one_entry_state \<and>
   map_of (llmCache one_entry_state) ''k'' = Some 0 \<and>
   fst (GetLLMCacheStats one_entry_state) = 1 \<and>
   llmCacheStats (snd (GetLLMCacheStats one_entry_state)) = 0 \<and>
   cur_stats (write_stats (fst (GetLLMCacheStats one_entry_state)) (Hits_update (\<lambda>_. 99))
       (snd (GetLLMCacheStats one_entry_state))) = cur_stats one_entry_state \<and>
   GetLLMCacheItems one_entry_state = [0] \<and>
   HitCount (item_store (write_item 0 (HitCount_update (\<lambda>_. 7)) one_entry_state) 0) = 7"
  using stats_copied_items_shared [of one_entry_state "''k''" 0 "Hits_update (\<lambda>_. 99)"
      "HitCount_update (\<lambda>_. 7)"]
  by (simp add: stats_allocated_def one_entry_state_fields GetLLMCacheStats_def Let_def)

end
